theory Spec2Isabelle
  imports Complex_Main
begin

section \<open>JavaScript numbers and values\<close>

text \<open>
  The service computes with JavaScript numbers. A number is modelled as one of the three
  special values \<open>NaN\<close>, \<open>+Infinity\<close>, \<open>-Infinity\<close>, or a finite value carried as a real.
  The special values follow IEEE 754 as JavaScript exposes it: \<open>0/0\<close>, \<open>Infinity - Infinity\<close>,
  \<open>Infinity / Infinity\<close> and \<open>0 * Infinity\<close> are \<open>NaN\<close>, every comparison with \<open>NaN\<close> is false, and
  a finite result whose magnitude reaches the overflow threshold of a double becomes an
  infinity. Finite results below the threshold are kept exactly: the rounding of a result to
  53 significant bits, underflow and the sign of zero are not modelled.
\<close>

datatype jsnum = NaN | PInf | NInf | Fin real

definition overflow_threshold :: real where
  "overflow_threshold = 2 ^ 1024 - 2 ^ 970"

definition norm_fin :: "real \<Rightarrow> jsnum" where
  "norm_fin x = (if overflow_threshold \<le> x then PInf
                 else if x \<le> - overflow_threshold then NInf
                 else Fin x)"

fun is_neg :: "jsnum \<Rightarrow> bool" where
  "is_neg NInf = True"
| "is_neg (Fin x) = (x < 0)"
| "is_neg _ = False"

fun js_neg :: "jsnum \<Rightarrow> jsnum" where
  "js_neg NaN = NaN"
| "js_neg PInf = NInf"
| "js_neg NInf = PInf"
| "js_neg (Fin x) = Fin (- x)"

fun js_add :: "jsnum \<Rightarrow> jsnum \<Rightarrow> jsnum" where
  "js_add NaN _ = NaN"
| "js_add _ NaN = NaN"
| "js_add PInf NInf = NaN"
| "js_add NInf PInf = NaN"
| "js_add PInf _ = PInf"
| "js_add _ PInf = PInf"
| "js_add NInf _ = NInf"
| "js_add _ NInf = NInf"
| "js_add (Fin x) (Fin y) = norm_fin (x + y)"

definition js_sub :: "jsnum \<Rightarrow> jsnum \<Rightarrow> jsnum" where
  "js_sub a b = js_add a (js_neg b)"

fun js_mul :: "jsnum \<Rightarrow> jsnum \<Rightarrow> jsnum" where
  "js_mul NaN _ = NaN"
| "js_mul _ NaN = NaN"
| "js_mul (Fin x) (Fin y) = norm_fin (x * y)"
| "js_mul a b =
     (if a = Fin 0 \<or> b = Fin 0 then NaN
      else if is_neg a \<noteq> is_neg b then NInf else PInf)"

fun js_div :: "jsnum \<Rightarrow> jsnum \<Rightarrow> jsnum" where
  "js_div NaN _ = NaN"
| "js_div _ NaN = NaN"
| "js_div (Fin x) (Fin y) =
     (if y = 0 then (if x = 0 then NaN else if x < 0 then NInf else PInf)
      else norm_fin (x / y))"
| "js_div (Fin x) _ = Fin 0"
| "js_div a (Fin y) = (if is_neg a \<noteq> (y < 0) then NInf else PInf)"
| "js_div _ _ = NaN"

fun js_lt :: "jsnum \<Rightarrow> jsnum \<Rightarrow> bool" where
  "js_lt NaN _ = False"
| "js_lt _ NaN = False"
| "js_lt (Fin x) (Fin y) = (x < y)"
| "js_lt PInf _ = False"
| "js_lt _ NInf = False"
| "js_lt _ _ = True"

definition js_gt :: "jsnum \<Rightarrow> jsnum \<Rightarrow> bool" where
  "js_gt a b = js_lt b a"

definition js_le :: "jsnum \<Rightarrow> jsnum \<Rightarrow> bool" where
  "js_le a b = (a \<noteq> NaN \<and> b \<noteq> NaN \<and> \<not> js_lt b a)"

definition js_eq :: "jsnum \<Rightarrow> jsnum \<Rightarrow> bool" where
  "js_eq a b = (a \<noteq> NaN \<and> a = b)"

definition isNaN :: "jsnum \<Rightarrow> bool" where
  "isNaN x = (x = NaN)"

fun isFinite :: "jsnum \<Rightarrow> bool" where
  "isFinite (Fin x) = True"
| "isFinite _ = False"

fun Math_abs :: "jsnum \<Rightarrow> jsnum" where
  "Math_abs NaN = NaN"
| "Math_abs (Fin x) = Fin \<bar>x\<bar>"
| "Math_abs _ = PInf"

text \<open>\<open>Math.round\<close> rounds to the nearest integer, a tie going up.\<close>

fun Math_round :: "jsnum \<Rightarrow> jsnum" where
  "Math_round (Fin x) = Fin (of_int \<lfloor>x + 1 / 2\<rfloor>)"
| "Math_round x = x"

text \<open>
  \<open>Math.pow\<close>. An exponent that is a whole number is an iterated product (or its reciprocal);
  any other exponent of a positive base is the real power; a negative base with a fractional
  exponent is \<open>NaN\<close>.
\<close>

definition is_whole :: "real \<Rightarrow> bool" where
  "is_whole y = (of_int \<lfloor>y\<rfloor> = y)"

definition is_odd_whole :: "real \<Rightarrow> bool" where
  "is_odd_whole y = (is_whole y \<and> odd \<lfloor>y\<rfloor>)"

definition real_pow :: "real \<Rightarrow> real \<Rightarrow> real" where
  "real_pow b e =
     (if is_whole e then (if 0 \<le> e then b ^ nat \<lfloor>e\<rfloor> else 1 / b ^ nat \<lfloor>- e\<rfloor>)
      else b powr e)"

fun Math_pow :: "jsnum \<Rightarrow> jsnum \<Rightarrow> jsnum" where
  "Math_pow _ NaN = NaN"
| "Math_pow b (Fin e) =
     (if e = 0 then Fin 1
      else case b of
        NaN \<Rightarrow> NaN
      | PInf \<Rightarrow> (if 0 < e then PInf else Fin 0)
      | NInf \<Rightarrow> (if 0 < e then (if is_odd_whole e then NInf else PInf) else Fin 0)
      | Fin x \<Rightarrow>
          (if x = 0 then (if 0 < e then Fin 0 else PInf)
           else if x < 0 \<and> \<not> is_whole e then NaN
           else norm_fin (real_pow x e)))"
| "Math_pow NaN _ = NaN"
| "Math_pow (Fin x) PInf =
     (if 1 < \<bar>x\<bar> then PInf else if \<bar>x\<bar> = 1 then NaN else Fin 0)"
| "Math_pow (Fin x) NInf =
     (if 1 < \<bar>x\<bar> then Fin 0 else if \<bar>x\<bar> = 1 then NaN else PInf)"
| "Math_pow _ PInf = PInf"
| "Math_pow _ NInf = Fin 0"

text \<open>
  A value handed to the service: a number, or one of the values whose \<open>typeof\<close> is not
  \<open>'number'\<close>.
\<close>

datatype jsval = VNum jsnum | VUndefined | VNull | VBool bool | VStr string

fun typeof :: "jsval \<Rightarrow> string" where
  "typeof (VNum _) = ''number''"
| "typeof VUndefined = ''undefined''"
| "typeof VNull = ''object''"
| "typeof (VBool _) = ''boolean''"
| "typeof (VStr _) = ''string''"

section \<open>mathUtils\<close>

text \<open>\<open>roundToCents\<close>: anything that is not a number, and \<open>NaN\<close>, becomes 0.\<close>

definition roundToCents :: "jsval \<Rightarrow> jsnum" where
  "roundToCents v =
     (case v of
        VNum x \<Rightarrow>
          (if isNaN x then Fin 0
           else js_div (Math_round (js_mul x (Fin 100))) (Fin 100))
      | _ \<Rightarrow> Fin 0)"


text \<open>
  \<open>AppError(message, statusCode)\<close>. The message is kept in structured form: the field
  name and, where the source interpolates one, the bound. \<open>TypeError\<close> is the error the
  language itself raises.
\<close>

datatype message =
    MustBeValidNumber string
  | CannotBeZero string
  | CannotBeLessThan string jsnum
  | CannotBeGreaterThan string jsnum

datatype error = AppError message nat | TypeError string

record options =
  opt_min :: jsnum
  opt_max :: jsnum
  allowZero :: bool

text \<open>The defaults of the destructuring \<open>{ min = 0, max = Infinity, allowZero = true }\<close>.\<close>

definition default_options :: options where
  "default_options = \<lparr>opt_min = Fin 0, opt_max = PInf, allowZero = True\<rparr>"

definition validateNumber :: "jsval \<Rightarrow> string \<Rightarrow> options \<Rightarrow> error + bool" where
  "validateNumber v fieldName opts =
     (case v of
        VNum x \<Rightarrow>
          (if isNaN x \<or> \<not> isFinite x then Inl (AppError (MustBeValidNumber fieldName) 400)
           else if \<not> allowZero opts \<and> js_eq x (Fin 0)
             then Inl (AppError (CannotBeZero fieldName) 400)
           else if js_lt x (opt_min opts)
             then Inl (AppError (CannotBeLessThan fieldName (opt_min opts)) 400)
           else if js_gt x (opt_max opts)
             then Inl (AppError (CannotBeGreaterThan fieldName (opt_max opts)) 400)
           else Inr True)
      | _ \<Rightarrow> Inl (AppError (MustBeValidNumber fieldName) 400))"

text \<open>A statement that may throw, followed by the rest of the function body.\<close>

definition andThen :: "error + 'a \<Rightarrow> error + 'b \<Rightarrow> error + 'b" where
  "andThen r rest = (case r of Inl e \<Rightarrow> Inl e | Inr _ \<Rightarrow> rest)"

definition validateLoanParameters :: "jsval \<Rightarrow> jsval \<Rightarrow> jsval \<Rightarrow> error + bool" where
  "validateLoanParameters loanAmount interestRate loanTerm =
     andThen (validateNumber loanAmount ''Loan amount''
                (default_options\<lparr>opt_min := Fin 1, opt_max := Fin 100000000\<rparr>))
    (andThen (validateNumber interestRate ''Interest rate''
                (default_options\<lparr>opt_min := Fin 0, opt_max := Fin 50\<rparr>))
    (andThen (validateNumber loanTerm ''Loan term''
                (default_options\<lparr>opt_min := Fin 1, opt_max := Fin 50\<rparr>))
       (Inr True)))"

text \<open>The number inside a value that has passed the \<open>typeof\<close> test of \<open>validateNumber\<close>.\<close>

fun the_num :: "jsval \<Rightarrow> jsnum" where
  "the_num (VNum x) = x"
| "the_num _ = NaN"

section \<open>MortgageService\<close>

subsection \<open>calculatePrincipalAndInterest\<close>

text \<open>
  The expression bound to \<open>monthlyPayment\<close> before it is rounded:
  \<open>loanAmount * (monthlyRate * pow(1 + monthlyRate, n)) / (pow(1 + monthlyRate, n) - 1)\<close>.
\<close>

definition annuityPayment :: "jsnum \<Rightarrow> jsnum \<Rightarrow> jsnum \<Rightarrow> jsnum" where
  "annuityPayment loanAmount annualRate termYears =
     (let monthlyRate = js_div (js_div annualRate (Fin 100)) (Fin 12);
          numPayments = js_mul termYears (Fin 12)
      in js_div
           (js_mul loanAmount
              (js_mul monthlyRate (Math_pow (js_add (Fin 1) monthlyRate) numPayments)))
           (js_sub (Math_pow (js_add (Fin 1) monthlyRate) numPayments) (Fin 1)))"

definition calculatePrincipalAndInterest :: "jsval \<Rightarrow> jsval \<Rightarrow> jsval \<Rightarrow> error + jsnum" where
  "calculatePrincipalAndInterest loanAmount annualRate termYears =
     andThen (validateNumber loanAmount ''Loan amount'' default_options)
    (andThen (validateNumber annualRate ''Interest rate'' default_options)
    (andThen (validateNumber termYears ''Loan term'' default_options)
       (if js_eq (the_num annualRate) (Fin 0)
        then Inr (roundToCents
                    (VNum (js_div (the_num loanAmount) (js_mul (the_num termYears) (Fin 12)))))
        else Inr (roundToCents
                    (VNum (annuityPayment (the_num loanAmount) (the_num annualRate)
                             (the_num termYears)))))))"

subsection \<open>calculateMonthlyPayment\<close>


record breakdown =
  b_principal :: jsnum
  b_interest :: jsnum
  b_propertyTax :: jsnum
  b_insurance :: jsnum
  b_pmi :: jsnum
  b_hoaFees :: jsnum

record monthlyPayment =
  principalAndInterest :: jsnum
  propertyTax :: jsnum
  insurance :: jsnum
  pmi :: jsnum
  hoaFees :: jsnum
  totalMonthlyPayment :: jsnum
  breakdown :: breakdown


subsection \<open>generateAmortizationSchedule\<close>

record entry =
  paymentNumber :: nat
  paymentAmount :: jsnum
  principalPayment :: jsnum
  interestPayment :: jsnum
  remainingBalance :: jsnum
  cumulativePrincipal :: jsnum
  cumulativeInterest :: jsnum





subsection \<open>calculateAPR\<close>

definition tolerance :: jsnum where
  "tolerance = Fin (1 / 10000)"

definition maxIterations :: nat where
  "maxIterations = 100"

text \<open>
  The Newton-Raphson loop, from iteration \<open>i\<close> on, with the current estimate \<open>apr\<close>; the
  result is the value of \<open>apr\<close> when the loop is left, by \<open>break\<close> or by \<open>i\<close> reaching
  \<open>maxIterations\<close>.
\<close>

function aprLoop :: "jsnum \<Rightarrow> jsnum \<Rightarrow> jsnum \<Rightarrow> nat \<Rightarrow> jsnum \<Rightarrow> jsnum" where
  "aprLoop monthlyPmt adjustedLoanAmount loanTerm i apr =
     (if i < maxIterations then
        (let monthlyAPR = js_div (js_div apr (Fin 100)) (Fin 12);
             numPayments = js_mul loanTerm (Fin 12);
             pv = js_div
                    (js_mul monthlyPmt
                       (js_sub (Fin 1) (Math_pow (js_add (Fin 1) monthlyAPR) (js_neg numPayments))))
                    monthlyAPR;
             err = js_sub pv adjustedLoanAmount
         in if js_lt (Math_abs err) tolerance then apr
            else
              (let derivative =
                     js_div
                       (js_mul (js_neg monthlyPmt)
                          (js_sub
                             (js_div
                                (js_sub (Fin 1)
                                   (Math_pow (js_add (Fin 1) monthlyAPR) (js_neg numPayments)))
                                (Math_pow monthlyAPR (Fin 2)))
                             (js_div
                                (js_mul numPayments
                                   (Math_pow (js_add (Fin 1) monthlyAPR)
                                      (js_sub (js_neg numPayments) (Fin 1))))
                                monthlyAPR)))
                       (Fin 1200)
               in aprLoop monthlyPmt adjustedLoanAmount loanTerm (i + 1)
                    (js_sub apr (js_div err derivative))))
      else apr)"
  by pat_completeness auto
termination
  by (relation "measure (\<lambda>(m, a, t, i, apr). maxIterations - i)") auto

text \<open>\<open>fees\<close> is a number or absent; \<open>!fees\<close> holds for an absent value, 0 and \<open>NaN\<close>.\<close>

fun falsy :: "jsnum option \<Rightarrow> bool" where
  "falsy None = True"
| "falsy (Some x) = (x = NaN \<or> x = Fin 0)"

definition calculateAPR :: "jsval \<Rightarrow> jsval \<Rightarrow> jsval \<Rightarrow> jsnum option \<Rightarrow> error + jsnum" where
  "calculateAPR loanAmount interestRate loanTerm fees =
     andThen (validateNumber loanAmount ''Loan amount'' default_options)
    (andThen (validateNumber interestRate ''Interest rate'' default_options)
    (andThen (validateNumber loanTerm ''Loan term'' default_options)
       (case fees of
          None \<Rightarrow> Inr (roundToCents interestRate)
        | Some f \<Rightarrow>
            (if falsy (Some f) \<or> js_eq f (Fin 0) then Inr (roundToCents interestRate)
             else
               (let adjustedLoanAmount = js_sub (the_num loanAmount) f
                in case calculatePrincipalAndInterest loanAmount interestRate loanTerm of
                     Inl e \<Rightarrow> Inl e
                   | Inr monthlyPmt \<Rightarrow>
                       Inr (roundToCents
                              (VNum (aprLoop monthlyPmt adjustedLoanAmount (the_num loanTerm) 0
                                       (the_num interestRate)))))))))"

subsection \<open>getLoanSummary\<close>

record loanDetails =
  ld_loanAmount :: jsnum
  ld_interestRate :: jsnum
  ld_apr :: jsnum
  ld_loanTerm :: jsnum
  ld_fees :: jsnum

record totals =
  totalPayments :: jsnum
  totalInterest :: jsnum
  totalPrincipal :: jsnum
  totalCost :: jsnum

record 'd loanSummary =
  loanDetails :: loanDetails
  monthlyPayment :: monthlyPayment
  totals :: totals
  interestPercentage :: jsnum
  payoffDate :: 'd
  firstPaymentBreakdown :: "entry option"


subsection \<open>findBestLoan\<close>

text \<open>
  \<open>comparisons.reduce(f)\<close> without an initial value: a \<open>TypeError\<close> on an empty array,
  otherwise the fold starts from the first element. The elements are loan summaries, possibly
  with further properties (the controller adds \<open>scenario\<close>).
\<close>

definition findBestLoan :: "('d, 'z) loanSummary_scheme list \<Rightarrow> error + ('d, 'z) loanSummary_scheme" where
  "findBestLoan comparisons =
     (case comparisons of
        [] \<Rightarrow> Inl (TypeError ''Reduce of empty array with no initial value'')
      | first # rest \<Rightarrow>
          Inr (foldl (\<lambda>best current.
                        (let bestCost = totalCost (totals best);
                             currentCost = totalCost (totals current)
                         in if js_lt currentCost bestCost then current else best))
                 first rest))"


text \<open>
  The controller hands \<open>findBestLoan\<close> the summaries with their position in the request
  added: \<open>{ scenario: index + 1, ...summary }\<close>.
\<close>

record 'd comparison = "'d loanSummary" +
  scenario :: nat

definition withScenario :: "nat \<Rightarrow> 'd loanSummary \<Rightarrow> 'd comparison" where
  "withScenario index summary = loanSummary.extend summary \<lparr>scenario = index + 1\<rparr>"

text \<open>A summary with a given total cost and nothing else of interest, for examples.\<close>

definition summaryWithCost :: "jsnum \<Rightarrow> unit loanSummary" where
  "summaryWithCost c =
     \<lparr>loanDetails = \<lparr>ld_loanAmount = Fin 0, ld_interestRate = Fin 0, ld_apr = Fin 0,
                     ld_loanTerm = Fin 0, ld_fees = Fin 0\<rparr>,
      monthlyPayment =
        \<lparr>principalAndInterest = Fin 0, propertyTax = Fin 0, insurance = Fin 0, pmi = Fin 0,
         hoaFees = Fin 0, totalMonthlyPayment = Fin 0,
         breakdown = \<lparr>b_principal = Fin 0, b_interest = Fin 0, b_propertyTax = Fin 0,
                       b_insurance = Fin 0, b_pmi = Fin 0, b_hoaFees = Fin 0\<rparr>\<rparr>,
      totals = \<lparr>totalPayments = Fin 0, totalInterest = Fin 0, totalPrincipal = Fin 0,
                totalCost = c\<rparr>,
      interestPercentage = Fin 0,
      payoffDate = (),
      firstPaymentBreakdown = None\<rparr>"

section \<open>The schedule in exact arithmetic\<close>

text \<open>
  Rounding to cents on the reals, and the loop of \<open>generateAmortizationSchedule\<close> on the
  reals: \<open>exactSchedule m r b j\<close> lists, for a fixed payment \<open>m\<close>, a monthly rate \<open>r\<close>, a
  balance \<open>b\<close> and \<open>j\<close> periods still to run, the principal part, the interest part and
  the new balance of each period. The period is the last scheduled one when \<open>j = 1\<close>. The
  properties below relate the loop of the service to it for inputs on which no operation
  overflows.
\<close>

definition rc :: "real \<Rightarrow> real" where
  "rc x = of_int \<lfloor>x * 100 + 1 / 2\<rfloor> / 100"






section \<open>Properties\<close>

subsection \<open>Numbers, rounding and validation\<close>

declare aprLoop.simps [simp del]

lemma norm_fin_not_NaN [simp]: "norm_fin x \<noteq> NaN"
  by (simp add: norm_fin_def)



lemma roundToCents_not_NaN: "roundToCents v \<noteq> NaN"
proof (cases v)
  case (VNum x)
  then show ?thesis
    by (cases x) (auto simp: roundToCents_def isNaN_def norm_fin_def)
qed (simp_all add: roundToCents_def)


lemma validateNumber_default_ok:
  "0 \<le> x \<Longrightarrow> validateNumber (VNum (Fin x)) f default_options = Inr True"
  by (simp add: validateNumber_def default_options_def isNaN_def js_gt_def)

lemma validateNumber_default_iff:
  "validateNumber v f default_options = Inr True \<longleftrightarrow> (\<exists>x. v = VNum (Fin x) \<and> 0 \<le> x)"
proof (cases v)
  case (VNum y)
  then show ?thesis
    by (cases y) (auto simp: validateNumber_def default_options_def isNaN_def js_gt_def)
qed (simp_all add: validateNumber_def)

lemma validateNumber_cases:
  "validateNumber v f opts = Inr True \<or> (\<exists>m. validateNumber v f opts = Inl (AppError m 400))"
  by (auto simp: validateNumber_def split: jsval.splits if_splits)

subsection \<open>calculatePrincipalAndInterest: what is rejected\<close>

text \<open>
  Claim C2, as the code has it. An argument that is not a number, is \<open>NaN\<close> or infinite,
  or is negative makes \<open>calculatePrincipalAndInterest\<close> fail with an \<open>AppError\<close> of
  status 400; and no input at all makes it return \<open>NaN\<close>. (Zero is accepted by
  \<open>validateNumber\<close>, whose \<open>allowZero\<close> defaults to true, and nothing checks the power
  for overflow.)
\<close>

theorem calculatePrincipalAndInterest_rejects:
  "((\<nexists>x. loanAmount = VNum (Fin x) \<and> 0 \<le> x) \<or> (\<nexists>x. annualRate = VNum (Fin x) \<and> 0 \<le> x) \<or>
    (\<nexists>x. termYears = VNum (Fin x) \<and> 0 \<le> x)
      \<longrightarrow> (\<exists>m. calculatePrincipalAndInterest loanAmount annualRate termYears
                  = Inl (AppError m 400)))
   \<and> calculatePrincipalAndInterest loanAmount annualRate termYears \<noteq> Inr NaN"
proof -
  have A: "calculatePrincipalAndInterest loanAmount annualRate termYears \<noteq> Inr NaN"
    by (auto simp: calculatePrincipalAndInterest_def andThen_def roundToCents_not_NaN
             split: sum.splits)
  have B: "\<exists>m. calculatePrincipalAndInterest loanAmount annualRate termYears = Inl (AppError m 400)"
    if "(\<nexists>x. loanAmount = VNum (Fin x) \<and> 0 \<le> x) \<or> (\<nexists>x. annualRate = VNum (Fin x) \<and> 0 \<le> x) \<or>
        (\<nexists>x. termYears = VNum (Fin x) \<and> 0 \<le> x)"
  proof -
    from that have "validateNumber loanAmount ''Loan amount'' default_options \<noteq> Inr True
       \<or> validateNumber annualRate ''Interest rate'' default_options \<noteq> Inr True
       \<or> validateNumber termYears ''Loan term'' default_options \<noteq> Inr True"
      by (simp only: validateNumber_default_iff)
    then show ?thesis
      using validateNumber_cases[of loanAmount "''Loan amount''" default_options]
            validateNumber_cases[of annualRate "''Interest rate''" default_options]
            validateNumber_cases[of termYears "''Loan term''" default_options]
      by (auto simp: calculatePrincipalAndInterest_def andThen_def)
  qed
  show ?thesis using A B by blast
qed

text \<open>The theorem at a negative loan amount.\<close>

theorem calculatePrincipalAndInterest_rejects_witness:
  "(\<nexists>x. VNum (Fin (- 5)) = VNum (Fin x) \<and> 0 \<le> x) \<and>
   (\<exists>m. calculatePrincipalAndInterest (VNum (Fin (- 5))) (VNum (Fin 5)) (VNum (Fin 30))
          = Inl (AppError m 400))"
  using calculatePrincipalAndInterest_rejects
          [of "VNum (Fin (- 5))" "VNum (Fin 5)" "VNum (Fin 30)"]
  by simp

text \<open>
  Claim C2 as stated fails: a loan term of zero is not rejected, and the payment returned for
  it is \<open>Infinity\<close>.
\<close>

theorem calculatePrincipalAndInterest_zero_term_counterexample:
  "calculatePrincipalAndInterest (VNum (Fin 100000)) (VNum (Fin 0)) (VNum (Fin 0)) = Inr PInf"
  by (simp add: calculatePrincipalAndInterest_def andThen_def validateNumber_default_ok
        js_eq_def roundToCents_def isNaN_def norm_fin_def overflow_threshold_def)

subsection \<open>calculateAPR\<close>

text \<open>Once the estimate is \<open>NaN\<close> it stays \<open>NaN\<close>, and no test of the loop ends it early.\<close>

lemma aprLoop_NaN: "aprLoop m a t i NaN = NaN"
proof (induction "maxIterations - i" arbitrary: i)
  case 0
  then show ?case by (simp add: aprLoop.simps)
next
  case (Suc k)
  then have "i < maxIterations" by simp
  moreover have "aprLoop m a t (i + 1) NaN = NaN"
    using Suc by simp
  ultimately show ?case
    by (simp add: js_sub_def Let_def aprLoop.simps[of m a t i NaN])
qed

text \<open>
  At a nominal rate of 0 the first present value is \<open>0 / 0\<close>, so the first update is \<open>NaN\<close>.
\<close>

lemma aprLoop_zero_rate: "aprLoop m a t 0 (Fin 0) = NaN"
proof -
  have p: "Math_pow (Fin 1) e = Fin 1 \<or> Math_pow (Fin 1) e = NaN" for e
    by (cases e) (auto simp: real_pow_def norm_fin_def overflow_threshold_def)
  have s: "js_sub (Fin 1) (Math_pow (Fin 1) e) = Fin 0 \<or> js_sub (Fin 1) (Math_pow (Fin 1) e) = NaN" for e
    using p[of e] by (auto simp: js_sub_def norm_fin_def overflow_threshold_def)
  have m: "js_mul m x = Fin 0 \<or> js_mul m x = NaN" if "x = Fin 0 \<or> x = NaN" for x
    using that by (cases m) (auto simp: norm_fin_def overflow_threshold_def)
  have pv: "js_div (js_mul m (js_sub (Fin 1) (Math_pow (Fin 1) e))) (Fin 0) = NaN" for e
    using m[OF s[of e]] by auto
  have z: "js_div (js_div (Fin 0) (Fin 100)) (Fin 12) = Fin 0"
    by (simp add: norm_fin_def overflow_threshold_def)
  have one: "js_add (Fin 1) (Fin 0) = Fin 1"
    by (simp add: norm_fin_def overflow_threshold_def)
  have sub: "js_sub NaN x = NaN" "js_sub x NaN = NaN" for x
    by (cases x; simp add: js_sub_def)+
  have dv: "js_div NaN x = NaN" for x by simp
  show ?thesis
    apply (subst aprLoop.simps)
    apply (simp only: Let_def z one pv sub dv Math_abs.simps js_lt.simps if_False aprLoop_NaN)
    apply (simp add: maxIterations_def)
    done
qed

lemma calculatePrincipalAndInterest_valid:
  assumes "0 \<le> P" "0 \<le> r" "0 \<le> t"
  shows "calculatePrincipalAndInterest (VNum (Fin P)) (VNum (Fin r)) (VNum (Fin t)) =
     (if r = 0 then Inr (roundToCents (VNum (js_div (Fin P) (js_mul (Fin t) (Fin 12)))))
      else Inr (roundToCents (VNum (annuityPayment (Fin P) (Fin r) (Fin t)))))"
  using assms
  by (simp add: calculatePrincipalAndInterest_def andThen_def validateNumber_default_ok js_eq_def
           del: js_div.simps js_mul.simps)

text \<open>
  Claim C4, as the code has it. \<open>calculateAPR\<close> has neither a convergence flag nor a
  convergence error. For validated arguments and fees other than 0 it returns
  \<open>roundToCents\<close> of whatever estimate the loop holds when it stops, by meeting the
  tolerance or by using up its 100 iterations. The number returned is never \<open>NaN\<close>: an
  estimate of \<open>NaN\<close> is returned as 0.
\<close>

theorem calculateAPR_no_convergence_report:
  assumes "0 \<le> P" "0 \<le> r" "0 \<le> t" "f \<noteq> NaN" "f \<noteq> Fin 0"
  shows "\<exists>m. calculatePrincipalAndInterest (VNum (Fin P)) (VNum (Fin r)) (VNum (Fin t)) = Inr m \<and>
           calculateAPR (VNum (Fin P)) (VNum (Fin r)) (VNum (Fin t)) (Some f) =
             Inr (roundToCents (VNum (aprLoop m (js_sub (Fin P) f) (Fin t) 0 (Fin r)))) \<and>
           calculateAPR (VNum (Fin P)) (VNum (Fin r)) (VNum (Fin t)) (Some f) \<noteq> Inr NaN \<and>
           (aprLoop m (js_sub (Fin P) f) (Fin t) 0 (Fin r) = NaN \<longrightarrow>
              calculateAPR (VNum (Fin P)) (VNum (Fin r)) (VNum (Fin t)) (Some f) = Inr (Fin 0))"
proof -
  obtain m where m: "calculatePrincipalAndInterest (VNum (Fin P)) (VNum (Fin r)) (VNum (Fin t)) = Inr m"
    using calculatePrincipalAndInterest_valid[OF assms(1-3)] by (cases "r = 0") simp_all
  have A: "calculateAPR (VNum (Fin P)) (VNum (Fin r)) (VNum (Fin t)) (Some f) =
             Inr (roundToCents (VNum (aprLoop m (js_sub (Fin P) f) (Fin t) 0 (Fin r))))"
    using assms m
    by (simp add: calculateAPR_def andThen_def validateNumber_default_ok js_eq_def Let_def)
  have B: "roundToCents (VNum NaN) = Fin 0"
    by (simp add: roundToCents_def isNaN_def)
  show ?thesis
    using m A B roundToCents_not_NaN by auto
qed

text \<open>The theorem at a loan of 200000 over 15 years with fees of 500.\<close>

theorem calculateAPR_no_convergence_report_witness:
  "\<exists>m. calculatePrincipalAndInterest (VNum (Fin 200000)) (VNum (Fin 0)) (VNum (Fin 15)) = Inr m \<and>
           calculateAPR (VNum (Fin 200000)) (VNum (Fin 0)) (VNum (Fin 15)) (Some (Fin 500)) =
             Inr (roundToCents (VNum (aprLoop m (js_sub (Fin 200000) (Fin 500)) (Fin 15) 0 (Fin 0)))) \<and>
           calculateAPR (VNum (Fin 200000)) (VNum (Fin 0)) (VNum (Fin 15)) (Some (Fin 500)) \<noteq> Inr NaN"
  using calculateAPR_no_convergence_report[of 200000 0 15 "Fin 500"]
  by auto

text \<open>
  Claim C4 as stated fails. For an interest-free loan of 100000 over 30 years with fees of
  1000 every Newton update is \<open>NaN\<close>, the loop runs out of iterations, and the caller gets
  the plain number 0, with no flag and no error.
\<close>

theorem calculateAPR_zero_rate_counterexample:
  "calculateAPR (VNum (Fin 100000)) (VNum (Fin 0)) (VNum (Fin 30)) (Some (Fin 1000)) = Inr (Fin 0)
   \<and> calculatePrincipalAndInterest (VNum (Fin 100000)) (VNum (Fin 0)) (VNum (Fin 30)) = Inr (Fin (27778 / 100))
   \<and> aprLoop (Fin (27778 / 100)) (js_sub (Fin 100000) (Fin 1000)) (Fin 30) 0 (Fin 0) = NaN"
proof -
  have m: "calculatePrincipalAndInterest (VNum (Fin 100000)) (VNum (Fin 0)) (VNum (Fin 30)) = Inr (Fin (27778 / 100))"
    by (simp add: calculatePrincipalAndInterest_valid norm_fin_def overflow_threshold_def roundToCents_def isNaN_def)
  have "calculateAPR (VNum (Fin 100000)) (VNum (Fin 0)) (VNum (Fin 30)) (Some (Fin 1000)) = Inr (Fin 0)"
    using m
    by (simp add: calculateAPR_def andThen_def validateNumber_default_ok js_eq_def Let_def
          aprLoop_zero_rate roundToCents_def isNaN_def del: js_div.simps js_mul.simps)
  then show ?thesis using m aprLoop_zero_rate by simp
qed




subsection \<open>The zero-rate branch\<close>




subsection \<open>roundToCents and NaN\<close>

text \<open>
  Claim C10. \<open>roundToCents\<close> returns 0 for every value that is not of type number and for
  \<open>NaN\<close>. Hence a \<open>NaN\<close> that the Newton loop of \<open>calculateAPR\<close> ends with reaches the
  caller as the number 0, not as \<open>NaN\<close> and not as an error.
\<close>

theorem roundToCents_NaN_is_zero:
  "(typeof v \<noteq> ''number'' \<or> v = VNum NaN \<longrightarrow> roundToCents v = Fin 0) \<and>
   (calculatePrincipalAndInterest loanAmount interestRate loanTerm = Inr m \<and>
    \<not> falsy (Some f) \<and>
    aprLoop m (js_sub (the_num loanAmount) f) (the_num loanTerm) 0 (the_num interestRate) = NaN
      \<longrightarrow> calculateAPR loanAmount interestRate loanTerm (Some f) = Inr (Fin 0))"
proof -
  have A: "roundToCents v = Fin 0" if "typeof v \<noteq> ''number'' \<or> v = VNum NaN"
    using that by (cases v) (auto simp: roundToCents_def isNaN_def)
  have B: "calculateAPR loanAmount interestRate loanTerm (Some f) = Inr (Fin 0)"
    if m: "calculatePrincipalAndInterest loanAmount interestRate loanTerm = Inr m"
    and f: "\<not> falsy (Some f)"
    and n: "aprLoop m (js_sub (the_num loanAmount) f) (the_num loanTerm) 0 (the_num interestRate) = NaN"
  proof -
    have v: "validateNumber loanAmount ''Loan amount'' default_options = Inr True"
            "validateNumber interestRate ''Interest rate'' default_options = Inr True"
            "validateNumber loanTerm ''Loan term'' default_options = Inr True"
      using m validateNumber_cases[of loanAmount "''Loan amount''" default_options]
            validateNumber_cases[of interestRate "''Interest rate''" default_options]
            validateNumber_cases[of loanTerm "''Loan term''" default_options]
      by (auto simp: calculatePrincipalAndInterest_def andThen_def)
    show ?thesis
      using f m n v
      by (simp add: calculateAPR_def andThen_def js_eq_def Let_def roundToCents_def isNaN_def)
  qed
  show ?thesis using A B by blast
qed

text \<open>The theorem at \<open>undefined\<close>, at \<open>NaN\<close>, and at an interest-free loan with fees.\<close>

theorem roundToCents_NaN_is_zero_witness:
  "typeof VUndefined \<noteq> ''number'' \<and> roundToCents VUndefined = Fin 0 \<and>
   roundToCents (VNum NaN) = Fin 0 \<and>
   calculateAPR (VNum (Fin 250000)) (VNum (Fin 0)) (VNum (Fin 15)) (Some (Fin 2500)) = Inr (Fin 0)"
proof -
  obtain m where m: "calculatePrincipalAndInterest (VNum (Fin 250000)) (VNum (Fin 0)) (VNum (Fin 15)) = Inr m"
    using calculatePrincipalAndInterest_valid[of 250000 0 15] by simp
  have n: "aprLoop m (js_sub (the_num (VNum (Fin 250000))) (Fin 2500)) (the_num (VNum (Fin 15))) 0
             (the_num (VNum (Fin 0))) = NaN"
    by (simp add: aprLoop_zero_rate)
  show ?thesis
    using roundToCents_NaN_is_zero[of VUndefined "VNum (Fin 250000)" "VNum (Fin 0)" "VNum (Fin 15)" m "Fin 2500"]
          roundToCents_NaN_is_zero[of "VNum NaN" "VNum (Fin 250000)" "VNum (Fin 0)" "VNum (Fin 15)" m "Fin 2500"]
          m n
    by simp
qed

subsection \<open>findBestLoan\<close>

lemma js_lt_le_trans: "js_lt a b \<Longrightarrow> js_le b c \<Longrightarrow> js_lt a c"
  by (cases a; cases b; cases c) (auto simp: js_le_def)

lemma js_le_trans: "js_le a b \<Longrightarrow> js_le b c \<Longrightarrow> js_le a c"
  by (cases a; cases b; cases c) (auto simp: js_le_def)

lemma js_lt_imp_le: "js_lt a b \<Longrightarrow> js_le a b"
  by (cases a; cases b) (auto simp: js_le_def)

lemma js_le_refl: "a \<noteq> NaN \<Longrightarrow> js_le a a"
  by (cases a) (auto simp: js_le_def)

text \<open>The fold keeps the first element among those of least cost.\<close>

lemma foldl_better_first_min:
  fixes x :: "('d, 'z) loanSummary_scheme"
  defines "better \<equiv> (\<lambda>best current.
                        (let bestCost = totalCost (totals best);
                             currentCost = totalCost (totals current)
                         in if js_lt currentCost bestCost then current else best))"
  assumes "\<forall>c \<in> set (x # xs). totalCost (totals c) \<noteq> NaN"
  shows "\<exists>i < length (x # xs). foldl better x xs = (x # xs) ! i \<and>
           (\<forall>j < length (x # xs). js_le (totalCost (totals ((x # xs) ! i))) (totalCost (totals ((x # xs) ! j)))) \<and>
           (\<forall>j < i. js_lt (totalCost (totals ((x # xs) ! i))) (totalCost (totals ((x # xs) ! j))))"
  using assms
proof (induction xs rule: rev_induct)
  case Nil
  then show ?case by (simp add: js_le_refl)
next
  case (snoc y ys)
  let ?c = "\<lambda>z. totalCost (totals z)"
  from snoc obtain i where i: "i < length (x # ys)" "foldl better x ys = (x # ys) ! i"
    "\<forall>j < length (x # ys). js_le (?c ((x # ys) ! i)) (?c ((x # ys) ! j))"
    "\<forall>j < i. js_lt (?c ((x # ys) ! i)) (?c ((x # ys) ! j))"
    by auto
  have nth_old: "(x # ys @ [y]) ! j = (x # ys) ! j" if "j < length (x # ys)" for j
    using that by (metis append_Cons nth_append)
  have nth_new: "(x # ys @ [y]) ! length (x # ys) = y"
    by (metis append_Cons nth_append_length)
  have yn: "?c y \<noteq> NaN" using snoc.prems by simp
  have bn: "?c ((x # ys) ! i) \<noteq> NaN" using snoc.prems i(1)
    by (metis (no_types, lifting) append_Cons in_set_conv_nth length_Cons length_append_singleton less_Suc_eq nth_old)
  show ?case
  proof (cases "js_lt (?c y) (?c ((x # ys) ! i))")
    case True
    have "foldl better x (ys @ [y]) = y" using True i(2) by (simp add: better_def)
    moreover have "js_le (?c y) (?c ((x # ys @ [y]) ! j))" if "j < length (x # ys @ [y])" for j
    proof (cases "j < length (x # ys)")
      case True
      then show ?thesis using i(3) \<open>js_lt (?c y) (?c ((x # ys) ! i))\<close> nth_old[OF True]
        by (metis js_lt_le_trans js_lt_imp_le)
    next
      case False
      then have "j = length (x # ys)" using that by simp
      then show ?thesis using nth_new yn by (simp add: js_le_refl)
    qed
    moreover have "js_lt (?c y) (?c ((x # ys @ [y]) ! j))" if "j < length (x # ys)" for j
      using i(3) True nth_old[OF that] that by (metis js_lt_le_trans)
    ultimately show ?thesis
      using nth_new by (intro exI[of _ "length (x # ys)"]) auto
  next
    case False
    have f: "foldl better x (ys @ [y]) = (x # ys @ [y]) ! i"
      using False i(1,2) nth_old[of i] by (simp add: better_def)
    have le_y: "js_le (?c ((x # ys) ! i)) (?c y)"
      using False yn bn by (simp add: js_le_def)
    have "js_le (?c ((x # ys @ [y]) ! i)) (?c ((x # ys @ [y]) ! j))" if "j < length (x # ys @ [y])" for j
    proof (cases "j < length (x # ys)")
      case True
      then show ?thesis using i(1,3) nth_old by metis
    next
      case False
      then have "j = length (x # ys)" using that by simp
      then show ?thesis using nth_new le_y nth_old[OF i(1)] by simp
    qed
    moreover have "js_lt (?c ((x # ys @ [y]) ! i)) (?c ((x # ys @ [y]) ! j))" if "j < i" for j
      using i(1,4) that nth_old[of i] nth_old[of j] by simp
    ultimately show ?thesis
      using f i(1) by (intro exI[of _ i]) auto
  qed
qed

text \<open>
  Claim C9. On a non-empty list of summaries (so on every list of two or more)
  \<open>findBestLoan\<close> returns the entry at the first position whose \<open>totals.totalCost\<close> is
  minimal: no entry costs less, and every entry before it costs strictly more. The position
  is fixed by the costs in input order alone. (A \<open>totalCost\<close> is a result of
  \<open>roundToCents\<close>, hence never \<open>NaN\<close>.)
\<close>

theorem findBestLoan_first_of_minimal:
  assumes "comparisons \<noteq> []" and "\<forall>c \<in> set comparisons. totalCost (totals c) \<noteq> NaN"
  shows "\<exists>i < length comparisons.
           findBestLoan comparisons = Inr (comparisons ! i) \<and>
           (\<forall>j < length comparisons.
              js_le (totalCost (totals (comparisons ! i))) (totalCost (totals (comparisons ! j)))) \<and>
           (\<forall>j < i.
              js_lt (totalCost (totals (comparisons ! i))) (totalCost (totals (comparisons ! j))))"
proof -
  from assms(1) obtain x xs where c: "comparisons = x # xs"
    by (cases comparisons) auto
  show ?thesis
    using foldl_better_first_min[of x xs] assms(2)
    unfolding c findBestLoan_def by simp
qed

text \<open>
  The theorem at three scenarios costing 600000, 500000 and 500000: the second one is chosen,
  the third, of equal cost, is not.
\<close>

theorem findBestLoan_first_of_minimal_witness:
  "findBestLoan [withScenario 0 (summaryWithCost (Fin 600000)),
                 withScenario 1 (summaryWithCost (Fin 500000)),
                 withScenario 2 (summaryWithCost (Fin 500000))]
     = Inr (withScenario 1 (summaryWithCost (Fin 500000)))"
proof -
  let ?xs = "[withScenario 0 (summaryWithCost (Fin 600000)),
              withScenario 1 (summaryWithCost (Fin 500000)),
              withScenario 2 (summaryWithCost (Fin 500000))]"
  have c: "totalCost (totals (withScenario n (summaryWithCost x))) = x" for n x
    by (simp add: withScenario_def summaryWithCost_def loanSummary.extend_def)
  have "?xs \<noteq> []" by simp
  moreover have "\<forall>s \<in> set ?xs. totalCost (totals s) \<noteq> NaN"
    by (simp add: c)
  ultimately obtain i where i: "i < length ?xs" "findBestLoan ?xs = Inr (?xs ! i)"
     "\<forall>j < length ?xs. js_le (totalCost (totals (?xs ! i))) (totalCost (totals (?xs ! j)))"
     "\<forall>j < i. js_lt (totalCost (totals (?xs ! i))) (totalCost (totals (?xs ! j)))"
    using findBestLoan_first_of_minimal[of ?xs] by blast
  from i(1) have "i = 0 \<or> i = 1 \<or> i = 2" by auto
  moreover have "i \<noteq> 0"
  proof
    assume "i = 0"
    with i(3)[rule_format, of 1] show False by (simp add: c js_le_def)
  qed
  moreover have "i \<noteq> 2"
  proof
    assume "i = 2"
    with i(4)[rule_format, of 1] show False by (simp add: c)
  qed
  ultimately have "i = 1" by blast
  then show ?thesis using i(2) by simp
qed

subsection \<open>The loop of generateAmortizationSchedule\<close>



subsection \<open>Rounding to cents on the reals\<close>




lemma rc_zero [simp]: "rc 0 = 0"
  by (simp add: rc_def)








subsection \<open>The loop computes the exact schedule while nothing overflows\<close>


subsection \<open>Properties of the exact schedule\<close>










subsection \<open>The payment while nothing overflows\<close>






subsection \<open>generateAmortizationSchedule on inputs in the validated ranges\<close>







subsection \<open>A loan whose balance rises\<close>












subsection \<open>Principal conservation\<close>



subsection \<open>A rate at which the power overflows\<close>










subsection \<open>getLoanSummary: the total of the payments\<close>










subsection \<open>A principal at which rounding overflows\<close>








end
